theory Spec2Isabelle
  imports Main
begin

section \<open>JavaScript values shared by the modules\<close>

text \<open>
  The only run-time error the modelled code can raise by itself is the \<open>TypeError\<close> of a
  property read on \<open>null\<close>/\<open>undefined\<close> (or of spreading a value that is not iterable).
\<close>

datatype js_error = TypeError

text \<open>
  An optional string property: \<open>None\<close> is \<open>undefined\<close>/\<open>null\<close>.  JavaScript treats the
  missing value and the empty string as falsy, every other string as truthy.
\<close>

definition truthy :: "string option \<Rightarrow> bool" where
  "truthy v = (case v of None \<Rightarrow> False | Some s \<Rightarrow> s \<noteq> [])"

section \<open>DataController: the user status fetch\<close>

text \<open>
  The document served by \<open>/users/plugin/state\<close>:
  \<open>{state, email, jwt, user: {auths: [{type, access_token}, ...]}}\<close>, every property
  optional.
\<close>

record auth =
  auth_type :: "string option"
  access_token :: "string option"

record user_rec =
  auths :: "auth list option"

record state_data =
  sd_state :: "string option"
  sd_email :: "string option"
  sd_jwt :: "string option"
  sd_user :: "user_rec option"

record response =
  resp_status :: int
  resp_data :: "state_data option"

text \<open>The value returned to the caller: \<open>{loggedOn, state}\<close>.\<close>

record user_status =
  loggedOn :: bool
  state :: string

text \<open>
  \<open>MusicManager\<close> is not part of the modelled sources; the calls made on it are recorded
  in the order in which they are awaited.
\<close>

datatype mgr_call = UpdateSpotifyAccessInfo auth | UpdateSlackAccessInfo auth

text \<open>A remote call: \<open>softwareGet(api, jwt, additionalHeaders)\<close>.\<close>

datatype request = Get string "string option" "string option"

text \<open>
  The part of the process state the function reads and writes: the item store behind
  \<open>getItem\<close>/\<open>setItem\<close>, the session cache behind \<open>cacheMgr\<close>, the remote calls issued so
  far and the calls made on the music manager.
\<close>

record session =
  items :: "string \<rightharpoonup> string"
  cache :: "string \<rightharpoonup> bool"
  requests :: "request list"
  mgr_calls :: "mgr_call list"

definition getItem :: "string \<Rightarrow> session \<Rightarrow> string option" where
  "getItem k s = items s k"

definition setItem :: "string \<Rightarrow> string \<Rightarrow> session \<Rightarrow> session" where
  "setItem k v s = s\<lparr>items := (items s)(k \<mapsto> v)\<rparr>"

text \<open>
  The \<open>for\<close> loop over \<open>user.auths\<close>: \<open>found\<close> is \<open>foundSpotifyAuth\<close>.  A record of type
  spotify with a truthy access token sets the flag and updates the spotify access info;
  otherwise a record of type slack updates the slack access info.
\<close>

fun auth_loop :: "auth list \<Rightarrow> bool \<Rightarrow> session \<Rightarrow> bool \<times> session" where
  "auth_loop [] found s = (found, s)"
| "auth_loop (a # as) found s =
     (if auth_type a = Some ''spotify'' \<and> truthy (access_token a)
      then auth_loop as True (s\<lparr>mgr_calls := mgr_calls s @ [UpdateSpotifyAccessInfo a]\<rparr>)
      else if auth_type a = Some ''slack''
      then auth_loop as found (s\<lparr>mgr_calls := mgr_calls s @ [UpdateSlackAccessInfo a]\<rparr>)
      else auth_loop as found s)"

text \<open>
  \<open>getMusicTimeUserStatus\<close>.  \<open>isResponseOk\<close> belongs to the HTTP client, which is not
  part of the modelled sources, and is a parameter; \<open>resp\<close> is what the awaited
  \<open>softwareGet\<close> resolves to if the call is made.  The result is the returned record or
  the raised error, together with the state reached (the writes made before a raise
  stay).
\<close>

definition getMusicTimeUserStatus ::
  "(response \<Rightarrow> bool) \<Rightarrow> response \<Rightarrow> session \<Rightarrow> (js_error + user_status) \<times> session" where
  "getMusicTimeUserStatus isResponseOk resp s =
     (let jwt = getItem ''jwt'' s;
          spotify_refresh_token = getItem ''spotify_refresh_token'' s
      in if truthy jwt \<or> truthy spotify_refresh_token then
           (let additionalHeaders =
                  (if truthy spotify_refresh_token then spotify_refresh_token else None);
                s0 = s\<lparr>requests :=
                       requests s @ [Get ''/users/plugin/state'' jwt additionalHeaders]\<rparr>
            in case (if isResponseOk resp then resp_data resp else None) of
                 None \<Rightarrow> (Inr \<lparr>loggedOn = False, state = ''UNKNOWN''\<rparr>, s0)
               | Some stateData \<Rightarrow>
                   (let st = (if truthy (sd_state stateData)
                              then the (sd_state stateData) else ''UNKNOWN'')
                    in if st = ''OK'' then
                         (let s1 = (if truthy (sd_email stateData)
                                    then setItem ''name'' (the (sd_email stateData)) s0
                                    else s0);
                              s2 = (if truthy (sd_jwt stateData)
                                    then setItem ''jwt'' (the (sd_jwt stateData)) s1
                                    else s1)
                          in case sd_user stateData of
                               None \<Rightarrow> (Inl TypeError, s2)
                             | Some user \<Rightarrow>
                                 (case auths user of
                                    None \<Rightarrow> (Inr \<lparr>loggedOn = False, state = st\<rparr>, s2)
                                  | Some as \<Rightarrow>
                                      (if 0 < length as then
                                         (let (foundSpotifyAuth, s3) = auth_loop as False s2
                                          in (Inr \<lparr>loggedOn = foundSpotifyAuth, state = st\<rparr>,
                                              s3))
                                       else (Inr \<lparr>loggedOn = False, state = st\<rparr>, s2))))
                       else (Inr \<lparr>loggedOn = False, state = st\<rparr>, s0)))
         else (Inr \<lparr>loggedOn = False, state = ''UNKNOWN''\<rparr>, s))"

text \<open>Whether the loop finds a spotify authorization: one with a truthy access token.\<close>

definition spotify_auth :: "auth \<Rightarrow> bool" where
  "spotify_auth a = (auth_type a = Some ''spotify'' \<and> truthy (access_token a))"

text \<open>"A token is available": the guard \<open>jwt || spotify_refresh_token\<close>.\<close>

definition token_available :: "session \<Rightarrow> bool" where
  "token_available s =
     (truthy (getItem ''jwt'' s) \<or> truthy (getItem ''spotify_refresh_token'' s))"

section \<open>DataController: seeding song sessions from the liked songs\<close>

text \<open>
  The properties of a liked track that the seeding reads or writes.  A missing
  \<open>playlistId\<close> is \<open>None\<close>.
\<close>

record track =
  track_id :: string
  track_name :: string
  playlistId :: "string option"
  liked :: bool

text \<open>
  A song session is \<open>{...track, ...fileMetrics}\<close>.  The file metrics come from
  \<open>getBootstrapFileMetrics\<close>, which reads the environment (time zone, operating system,
  plugin version); the object it returns is a parameter of type \<open>'m\<close>.
\<close>

record 'm song_session =
  ss_track :: track
  ss_metrics :: 'm

text \<open>One call \<open>softwarePut(api, {tracks}, jwt)\<close>.\<close>

record 'm put_call =
  put_api :: string
  put_tracks :: "'m song_session list"
  put_jwt :: "string option"

definition batch_size :: nat where
  "batch_size = 30"

text \<open>
  \<open>sendBatchedLikedSongSessions\<close> issues the call and drops its outcome; the calls issued
  so far are threaded through.
\<close>

definition sendBatchedLikedSongSessions ::
  "'m song_session list \<Rightarrow> session \<Rightarrow> 'm put_call list \<Rightarrow> 'm put_call list" where
  "sendBatchedLikedSongSessions tracksToSave s calls =
     calls @ [\<lparr>put_api = ''/music/session/seed'', put_tracks = tracksToSave,
               put_jwt = getItem ''jwt'' s\<rparr>]"

text \<open>The body of the loop up to the push: mark the track and merge the file metrics.\<close>

definition songSession :: "'m \<Rightarrow> track \<Rightarrow> 'm song_session" where
  "songSession fileMetrics t =
     (let t1 = t\<lparr>liked := True\<rparr>;
          t2 = (if \<not> truthy (playlistId t1) then t1\<lparr>playlistId := Some ''Liked Songs''\<rparr>
                else t1)
      in \<lparr>ss_track = t2, ss_metrics = fileMetrics\<rparr>)"

text \<open>
  The \<open>for\<close> loop: \<open>i\<close> is the index of the head of the remaining songs, \<open>batch\<close> the
  current batch.  The session is pushed first; the batch is sent and reset when
  \<open>i > 0 && i % batch_size === 0\<close>.
\<close>

fun seed_loop ::
  "'m \<Rightarrow> session \<Rightarrow> nat \<Rightarrow> track list \<Rightarrow> 'm song_session list \<Rightarrow> 'm put_call list \<Rightarrow>
     'm song_session list \<times> 'm put_call list" where
  "seed_loop fileMetrics s i [] batch calls = (batch, calls)"
| "seed_loop fileMetrics s i (t # ts) batch calls =
     (let batch1 = batch @ [songSession fileMetrics t]
      in if 0 < i \<and> i mod batch_size = 0
         then seed_loop fileMetrics s (i + 1) ts []
                (sendBatchedLikedSongSessions batch1 s calls)
         else seed_loop fileMetrics s (i + 1) ts batch1 calls)"

text \<open>
  \<open>seedLikedSongSessions\<close>: nothing is sent for a missing or empty list; after the loop
  the remaining batch is sent when it is not empty.  The result is the list of calls
  issued, in order.
\<close>

definition seedLikedSongSessions :: "'m \<Rightarrow> track list option \<Rightarrow> session \<Rightarrow> 'm put_call list" where
  "seedLikedSongSessions fileMetrics likedSongs s =
     (case likedSongs of
        None \<Rightarrow> []
      | Some songs \<Rightarrow>
          if 0 < length songs then
            (let (batch, calls) = seed_loop fileMetrics s 0 songs [] []
             in if 0 < length batch then sendBatchedLikedSongSessions batch s calls
                else calls)
          else [])"

section \<open>DataController: the server availability check\<close>

text \<open>
  Modelled from the spec: \<open>CacheManager\<close> is not among the sources.  The session cache
  is "a short-TTL key/value memoization layer": within the TTL, \<open>get\<close> returns the value
  last \<open>set\<close> for the key, and \<open>undefined\<close> for a key that was never set.  Expiry is not
  modelled.
\<close>

definition cacheGet :: "string \<Rightarrow> session \<Rightarrow> bool option" where
  "cacheGet k s = cache s k"

definition cacheSet :: "string \<Rightarrow> bool \<Rightarrow> session \<Rightarrow> session" where
  "cacheSet k v s = s\<lparr>cache := (cache s)(k \<mapsto> v)\<rparr>"

text \<open>\<open>v || null\<close> on an optional boolean: \<open>undefined\<close> and \<open>false\<close> both give \<open>null\<close>.\<close>

definition or_null :: "bool option \<Rightarrow> bool option" where
  "or_null v = (case v of Some True \<Rightarrow> Some True | _ \<Rightarrow> None)"

text \<open>
  \<open>serverIsAvailable\<close>.  \<open>ping\<close> is the outcome of \<open>softwareGet("/ping", null)\<close> if the
  call is made: \<open>None\<close> when the promise rejects (the \<open>catch\<close> turns it into \<open>false\<close>).
\<close>

definition serverIsAvailable ::
  "(response \<Rightarrow> bool) \<Rightarrow> response option \<Rightarrow> session \<Rightarrow> bool option \<times> session" where
  "serverIsAvailable isResponseOk ping s =
     (let serverAvailable0 = or_null (cacheGet ''serverAvailable'' s);
          (serverAvailable, s1) =
             (if serverAvailable0 = None
              then (Some (case ping of None \<Rightarrow> False | Some result \<Rightarrow> isResponseOk result),
                    s\<lparr>requests := requests s @ [Get ''/ping'' None None]\<rparr>)
              else (serverAvailable0, s));
          s2 = (case serverAvailable of
                  None \<Rightarrow> s1
                | Some v \<Rightarrow> cacheSet ''serverAvailable'' v s1)
      in (serverAvailable, s2))"

section \<open>DataController: polling the connection status\<close>

text \<open>
  A pending \<open>setTimeout\<close> callback of the module.  The callbacks of the two refetch
  functions close over \<open>tryCountUntilFound\<close>; the third is the command scheduled once
  the spotify connection is found.  The try count is a whole number.
\<close>

datatype timer_action =
    SlackConnectStatus int
  | SpotifyConnectStatus int
  | HardRefreshPlaylist

text \<open>
  A handler that was started by its timer and is suspended at its first \<open>await\<close>
  (\<open>getSlackOauth()\<close>, \<open>getMusicTimeUserStatus()\<close>), with its try count.
\<close>

datatype suspended = AwaitSlackOauth int | AwaitUserStatus int

text \<open>
  The outcome of an awaited check: the condition is met, it is not met, or the awaited
  call raises (as \<open>getMusicTimeUserStatus\<close> does on an \<open>OK\<close> response without a user
  record), which rejects the promise of the handler and ends it there.
\<close>

datatype check = Met | Unmet | Raised

text \<open>
  The module variables \<open>slackFetchTimeout\<close> and \<open>spotifyFetchTimeout\<close> hold a timer handle
  or \<open>null\<close>; the code only tests them for truthiness, so they are booleans here.
  \<open>timers\<close> are the pending callbacks with their delays in milliseconds, in the order in
  which they were set; \<open>messages\<close> are the information messages shown, \<open>commands\<close> the
  editor commands executed.
\<close>

record poller =
  slackFetchTimeout :: bool
  spotifyFetchTimeout :: bool
  timers :: "(nat \<times> timer_action) list"
  awaiting :: "suspended list"
  messages :: "string list"
  commands :: "string list"

definition poller_init :: poller where
  "poller_init = \<lparr>slackFetchTimeout = False, spotifyFetchTimeout = False, timers = [],
                   awaiting = [], messages = [], commands = []\<rparr>"

definition refetchSlackConnectStatusLazily :: "int \<Rightarrow> poller \<Rightarrow> poller" where
  "refetchSlackConnectStatusLazily tryCountUntilFound s =
     (if slackFetchTimeout s then s
      else s\<lparr>slackFetchTimeout := True,
             timers := timers s @ [(10000, SlackConnectStatus tryCountUntilFound)]\<rparr>)"

text \<open>
  The handler after its \<open>await\<close>: \<open>oauth\<close> is \<open>Met\<close> when \<open>getSlackOauth()\<close> returned a
  record.
\<close>

definition slackConnectStatusHandler :: "int \<Rightarrow> check \<Rightarrow> poller \<Rightarrow> poller" where
  "slackConnectStatusHandler tryCountUntilFound oauth s =
     (case oauth of
        Raised \<Rightarrow> s
      | Unmet \<Rightarrow>
          (if tryCountUntilFound > 0
           then refetchSlackConnectStatusLazily (tryCountUntilFound - 1) s
           else s)
      | Met \<Rightarrow> s\<lparr>messages := messages s @ [''Successfully connected to Slack'']\<rparr>)"

definition refetchSpotifyConnectStatusLazily :: "int \<Rightarrow> poller \<Rightarrow> poller" where
  "refetchSpotifyConnectStatusLazily tryCountUntilFound s =
     (if spotifyFetchTimeout s then s
      else s\<lparr>spotifyFetchTimeout := True,
             timers := timers s @ [(10000, SpotifyConnectStatus tryCountUntilFound)]\<rparr>)"

text \<open>
  The handler after its \<open>await\<close>: \<open>oauthResult\<close> is \<open>Met\<close> when \<open>oauthResult.loggedOn\<close>
  is true.  Of the branch taken once the connection is found, the message and the timer
  of the playlist refresh are kept; the population of the spotify user and of the liked
  songs acts on the data manager, and the seeding is \<open>seedLikedSongSessions\<close>.
\<close>

definition spotifyConnectStatusHandler :: "int \<Rightarrow> check \<Rightarrow> poller \<Rightarrow> poller" where
  "spotifyConnectStatusHandler tryCountUntilFound oauthResult s =
     (case oauthResult of
        Raised \<Rightarrow> s
      | Unmet \<Rightarrow>
          (if tryCountUntilFound > 0
           then refetchSpotifyConnectStatusLazily (tryCountUntilFound - 1) s
           else s)
      | Met \<Rightarrow> s\<lparr>messages := messages s @
                      [''Successfully connected to Spotify. Loading playlists...''],
                  timers := timers s @ [(2000, HardRefreshPlaylist)]\<rparr>)"

text \<open>
  What a timer callback does up to the first suspension: the guard variable is reset and
  the handler is started.
\<close>

fun timer_callback :: "timer_action \<Rightarrow> poller \<Rightarrow> poller" where
  "timer_callback (SlackConnectStatus n) s =
     s\<lparr>slackFetchTimeout := False, awaiting := awaiting s @ [AwaitSlackOauth n]\<rparr>"
| "timer_callback (SpotifyConnectStatus n) s =
     s\<lparr>spotifyFetchTimeout := False, awaiting := awaiting s @ [AwaitUserStatus n]\<rparr>"
| "timer_callback HardRefreshPlaylist s =
     s\<lparr>commands := commands s @ [''musictime.hardRefreshPlaylist'']\<rparr>"

fun resume_handler :: "suspended \<Rightarrow> check \<Rightarrow> poller \<Rightarrow> poller" where
  "resume_handler (AwaitSlackOauth n) oauth s = slackConnectStatusHandler n oauth s"
| "resume_handler (AwaitUserStatus n) oauthResult s =
     spotifyConnectStatusHandler n oauthResult s"

text \<open>
  The event loop for the connection checks.  Both loops use the one delay of 10000 ms,
  so their timers fire in the order in which they were set.  \<open>fire_and_check\<close> runs a
  callback and lets the handler it started run on at once with the outcome of its
  check; \<open>poll_run\<close> fires the pending connection timers until none is left, and returns
  the callbacks fired, in order, with the state reached.  \<open>outcome k\<close> is the outcome of
  the check with number \<open>k\<close>.
\<close>

fun is_check :: "nat \<times> timer_action \<Rightarrow> bool" where
  "is_check (d, SlackConnectStatus n) = True"
| "is_check (d, SpotifyConnectStatus n) = True"
| "is_check (d, HardRefreshPlaylist) = False"

definition fire_and_check :: "timer_action \<Rightarrow> check \<Rightarrow> poller \<Rightarrow> poller" where
  "fire_and_check a outcome s =
     (let s1 = timer_callback a s
      in case a of
           HardRefreshPlaylist \<Rightarrow> s1
         | _ \<Rightarrow> resume_handler (last (awaiting s1)) outcome
                 (s1\<lparr>awaiting := butlast (awaiting s1)\<rparr>))"

text \<open>The remaining tries of the pending connection timers bound the run.\<close>

fun weight :: "nat \<times> timer_action \<Rightarrow> nat" where
  "weight (d, SlackConnectStatus n) = nat n + 1"
| "weight (d, SpotifyConnectStatus n) = nat n + 1"
| "weight (d, HardRefreshPlaylist) = 0"

lemma timers_fire_and_check:
  "is_check (d, a) \<Longrightarrow>
   sum_list (map weight (timers (fire_and_check a outcome s)))
     < sum_list (map weight (timers s)) + weight (d, a)"
  by (cases a; cases outcome)
     (auto simp: fire_and_check_def slackConnectStatusHandler_def spotifyConnectStatusHandler_def
        refetchSlackConnectStatusLazily_def refetchSpotifyConnectStatusLazily_def)

function poll_run ::
  "(nat \<Rightarrow> check) \<Rightarrow> timer_action list \<Rightarrow> poller \<Rightarrow> timer_action list \<times> poller" where
  "poll_run outcome fired s =
     (case List.extract is_check (timers s) of
        None \<Rightarrow> (fired, s)
      | Some (before, t, after) \<Rightarrow>
          poll_run outcome (fired @ [snd t])
            (fire_and_check (snd t) (outcome (length fired)) (s\<lparr>timers := before @ after\<rparr>)))"
  by pat_completeness auto
termination
  apply (relation "measure (\<lambda>(outcome, fired, s). sum_list (map weight (timers s)))")
   apply simp
  apply (clarsimp simp: extract_Some_iff)
  subgoal for outcome fired s before d a after
    using timers_fire_and_check[of d a "outcome (length fired)" "s\<lparr>timers := before @ after\<rparr>"]
    by simp
  done

declare poll_run.simps [simp del]

text \<open>
  The steps of the module when calls and suspensions interleave: a call of a refetch
  entry point, a pending timer firing (any of them: the order is left open), a suspended
  handler resuming with the outcome of its check.  An event that names a timer or a
  handler that does not exist changes nothing.  The states the module can reach are
  those \<open>run_events\<close> yields from the initial state.
\<close>

datatype event =
    CallRefetchSlack int
  | CallRefetchSpotify int
  | TimerFires nat
  | HandlerResumes nat check

definition remove_nth :: "nat \<Rightarrow> 'a list \<Rightarrow> 'a list" where
  "remove_nth i xs = take i xs @ drop (Suc i) xs"

fun poll_step :: "event \<Rightarrow> poller \<Rightarrow> poller" where
  "poll_step (CallRefetchSlack n) s = refetchSlackConnectStatusLazily n s"
| "poll_step (CallRefetchSpotify n) s = refetchSpotifyConnectStatusLazily n s"
| "poll_step (TimerFires i) s =
     (if i < length (timers s)
      then timer_callback (snd (timers s ! i)) (s\<lparr>timers := remove_nth i (timers s)\<rparr>)
      else s)"
| "poll_step (HandlerResumes i outcome) s =
     (if i < length (awaiting s)
      then resume_handler (awaiting s ! i) outcome (s\<lparr>awaiting := remove_nth i (awaiting s)\<rparr>)
      else s)"

fun run_events :: "event list \<Rightarrow> poller \<Rightarrow> poller" where
  "run_events [] s = s"
| "run_events (e # es) s = run_events es (poll_step e s)"

text \<open>The timers of one condition that are outstanding.\<close>

fun is_slack :: "nat \<times> timer_action \<Rightarrow> bool" where
  "is_slack (d, SlackConnectStatus n) = True"
| "is_slack (d, a) = False"

fun is_spotify :: "nat \<times> timer_action \<Rightarrow> bool" where
  "is_spotify (d, SpotifyConnectStatus n) = True"
| "is_spotify (d, a) = False"

definition outstanding :: "(nat \<times> timer_action \<Rightarrow> bool) \<Rightarrow> poller \<Rightarrow> nat" where
  "outstanding P s = length (filter P (timers s))"

definition guards_count :: "poller \<Rightarrow> bool" where
  "guards_count s \<longleftrightarrow>
     outstanding is_slack s = (if slackFetchTimeout s then 1 else 0) \<and>
     outstanding is_spotify s = (if spotifyFetchTimeout s then 1 else 0)"

section \<open>DataController: populating the spotify playlists\<close>

text \<open>
  What \<open>runSpotifyCommand\<close> resolves to: nothing, an array, or an error object
  \<open>{status}\<close>.
\<close>

datatype 'a spotify_result = Null | Items "'a list" | Status int

datatype dc_timer = RetryPopulateSpotifyPlaylists | GatherMusicInfoRequest

text \<open>
  The fields of the data manager that the function writes itself, the rest of the data
  manager (\<open>other\<close>: saved, generated and displayed playlists among it), the pending timers
  and the calls of \<open>syncControls\<close> with their loading flag.  The types of playlists,
  devices and player context are parameters.
\<close>

record ('p, 'd, 'c, 'o) snapshot =
  origRawPlaylistOrder :: "'p list"
  rawPlaylists :: "'p list"
  currentDevices :: "'d spotify_result"
  spotifyContext :: 'c
  other :: 'o
  pending :: "(nat \<times> dc_timer) list"
  syncs :: "bool list"

text \<open>\<open>populateSpotifyDevices\<close>: status 429 leaves the current device set alone.\<close>

definition populateSpotifyDevices ::
  "'d spotify_result \<Rightarrow> ('p, 'd, 'c, 'o) snapshot \<Rightarrow> ('p, 'd, 'c, 'o) snapshot" where
  "populateSpotifyDevices devices s =
     (if devices = Status 429 then s
      else s\<lparr>currentDevices := devices,
             pending := pending s @ [(1000, GatherMusicInfoRequest)]\<rparr>)"

definition populatePlayerContext ::
  "'c \<Rightarrow> ('p, 'd, 'c, 'o) snapshot \<Rightarrow> ('p, 'd, 'c, 'o) snapshot" where
  "populatePlayerContext playerContext s =
     s\<lparr>spotifyContext := playerContext, syncs := syncs s @ [False]\<rparr>"

text \<open>
  \<open>populateSpotifyPlaylists\<close>.  The three methods of the data manager
  (\<open>reconcilePlaylists\<close>, \<open>fetchSavedPlaylists\<close>, \<open>populateGeneratedPlaylists\<close>) are not
  among the sources and are parameters; \<open>devices\<close>, \<open>fetched\<close> and \<open>playerContext\<close> are what
  the three remote fetches resolve to.  Spreading a fetch result that is not an array
  raises.
\<close>

definition populateSpotifyPlaylists ::
  "(('p, 'd, 'c, 'o) snapshot \<Rightarrow> ('p, 'd, 'c, 'o) snapshot) \<Rightarrow>
   (('p, 'd, 'c, 'o) snapshot \<Rightarrow> ('p, 'd, 'c, 'o) snapshot) \<Rightarrow>
   (('p, 'd, 'c, 'o) snapshot \<Rightarrow> ('p, 'd, 'c, 'o) snapshot) \<Rightarrow>
   'd spotify_result \<Rightarrow> 'p spotify_result \<Rightarrow> 'c \<Rightarrow>
   ('p, 'd, 'c, 'o) snapshot \<Rightarrow> js_error + ('p, 'd, 'c, 'o) snapshot" where
  "populateSpotifyPlaylists reconcilePlaylists fetchSavedPlaylists populateGeneratedPlaylists
     devices fetched playerContext s =
     (let s1 = reconcilePlaylists s;
          s2 = s1\<lparr>origRawPlaylistOrder := [], rawPlaylists := []\<rparr>;
          s3 = populateSpotifyDevices devices s2;
          s4 = fetchSavedPlaylists s3;
          r = (case fetched of
                 Status st \<Rightarrow>
                   if st \<ge> 400
                   then Inr (s4\<lparr>pending :=
                               pending s4 @ [(3000, RetryPopulateSpotifyPlaylists)]\<rparr>)
                   else Inl TypeError
               | Null \<Rightarrow> Inl TypeError
               | Items ps \<Rightarrow> Inr (s4\<lparr>origRawPlaylistOrder := ps, rawPlaylists := ps\<rparr>))
      in case r of
           Inl e \<Rightarrow> Inl e
         | Inr s5 \<Rightarrow> Inr (populatePlayerContext playerContext (populateGeneratedPlaylists s5)))"

section \<open>MusicPlaylistProvider: playing the selected item\<close>

text \<open>The enumerations \<open>PlayerType\<close> and \<open>PlayerName\<close> of the music library.\<close>

datatype player_type =
  MacItunesDesktop | MacSpotifyDesktop | WindowsSpotifyDesktop | WebSpotify | NotAssigned

datatype player_name = SpotifyDesktop | SpotifyWeb | ItunesDesktop

text \<open>
  A \<open>PlaylistItem\<close>: a playlist or a track, told apart by \<open>type\<close>.  A track carries the
  id of its playlist in \<open>playlist_id\<close>; \<open>position\<close> may be missing.
\<close>

record playlist_item =
  item_id :: string
  item_name :: string
  item_type :: string
  playlist_id :: string
  playerType :: player_type
  position :: "nat option"

text \<open>What \<open>musicMgr.launchConfirm(devices)\<close> resolves to.\<close>

record launch_confirm_info =
  proceed :: bool
  isLaunching :: bool
  playerName :: player_name

text \<open>The play commands of the three backends.\<close>

datatype backend_command =
    PlayItunesTrackNumberInPlaylist string nat
  | PlaySpotifyMacDesktopTrack string "string option"
  | LaunchAndPlaySpotifyTrack string string

text \<open>
  The callbacks handed to \<open>setTimeout\<close>.  The deferred play callbacks read the selected
  playlist and track when they fire, not when they are set.
\<close>

datatype deferred =
    DeferredItunesPlay nat
  | DeferredDesktopPlay
  | DeferredWebPlay bool
  | RefreshPlaylist

text \<open>
  The selection pointers of the music manager, the loading state of the controls
  (\<open>syncControls\<close>), the play commands issued to the backends, the pending timers with
  their delays, and the editor commands executed.
\<close>

record player =
  selectedTrackItem :: "playlist_item option"
  selectedPlaylist :: "playlist_item option"
  currentProvider :: string
  loading :: bool
  backend :: "backend_command list"
  scheduled :: "(nat \<times> deferred) list"
  executed :: "string list"

definition issue :: "backend_command \<Rightarrow> player \<Rightarrow> player" where
  "issue c s = s\<lparr>backend := backend s @ [c]\<rparr>"

definition setTimeout :: "deferred \<Rightarrow> nat \<Rightarrow> player \<Rightarrow> player" where
  "setTimeout f ms s = s\<lparr>scheduled := scheduled s @ [(ms, f)]\<rparr>"

text \<open>
  \<open>playSpotifyDesktopPlaylistTrack\<close>.  The name of the liked-songs playlist is a constant
  of a module that is not among the sources, and is a parameter.  Reading \<open>.name\<close> of a
  missing playlist or \<open>.id\<close> of a missing track raises.
\<close>

definition playSpotifyDesktopPlaylistTrack :: "string \<Rightarrow> player \<Rightarrow> js_error + player" where
  "playSpotifyDesktopPlaylistTrack SPOTIFY_LIKED_SONGS_PLAYLIST_NAME s =
     (case selectedPlaylist s of
        None \<Rightarrow> Inl TypeError
      | Some pl \<Rightarrow>
          (let isLikedSongsPlaylist = (item_name pl = SPOTIFY_LIKED_SONGS_PLAYLIST_NAME)
           in case selectedTrackItem s of
                None \<Rightarrow> Inl TypeError
              | Some tr \<Rightarrow>
                  if isLikedSongsPlaylist
                  then Inr (issue (PlaySpotifyMacDesktopTrack (item_id tr) None) s)
                  else Inr (issue (PlaySpotifyMacDesktopTrack (item_id tr) (Some (item_id pl))) s)))"

definition launchAndPlaySpotifyWebPlaylistTrack ::
  "string \<Rightarrow> bool \<Rightarrow> player \<Rightarrow> js_error + player" where
  "launchAndPlaySpotifyWebPlaylistTrack SPOTIFY_LIKED_SONGS_PLAYLIST_NAME isTrack s =
     (case selectedPlaylist s of
        None \<Rightarrow> Inl TypeError
      | Some pl \<Rightarrow>
          (let isLikedSongsPlaylist = (item_name pl = SPOTIFY_LIKED_SONGS_PLAYLIST_NAME)
           in if isTrack \<or> isLikedSongsPlaylist then
                (case selectedTrackItem s of
                   None \<Rightarrow> Inl TypeError
                 | Some tr \<Rightarrow> Inr (issue (LaunchAndPlaySpotifyTrack (item_id tr) (item_id pl)) s))
              else Inr (issue (LaunchAndPlaySpotifyTrack [] (item_id pl)) s)))"

text \<open>
  A call of an asynchronous helper whose promise is dropped: a raise inside it rejects the
  dropped promise and does not reach the caller.  Both helpers raise before they issue
  anything, so the state is then unchanged.
\<close>

definition detached :: "(player \<Rightarrow> js_error + player) \<Rightarrow> player \<Rightarrow> player" where
  "detached f s = (case f s of Inl e \<Rightarrow> s | Inr s' \<Rightarrow> s')"

definition launchTimeout :: nat where
  "launchTimeout = 4000"

text \<open>The last statement of \<open>playSelectedItem\<close>: the refresh, under its guard.\<close>

definition refresh_if_launching :: "launch_confirm_info \<Rightarrow> player \<Rightarrow> player" where
  "refresh_if_launching launchConfirmInfo s =
     (if isLaunching launchConfirmInfo then setTimeout RefreshPlaylist launchTimeout s else s)"


text \<open>What a pending callback does when it fires.\<close>

fun fire_deferred :: "string \<Rightarrow> deferred \<Rightarrow> player \<Rightarrow> js_error + player" where
  "fire_deferred likedName (DeferredItunesPlay pos) s =
     (case selectedPlaylist s of
        None \<Rightarrow> Inl TypeError
      | Some pl \<Rightarrow> Inr (issue (PlayItunesTrackNumberInPlaylist (item_name pl) pos) s))"
| "fire_deferred likedName DeferredDesktopPlay s =
     Inr (detached (playSpotifyDesktopPlaylistTrack likedName) s)"
| "fire_deferred likedName (DeferredWebPlay isTrack) s =
     Inr (detached (launchAndPlaySpotifyWebPlaylistTrack likedName isTrack) s)"
| "fire_deferred likedName RefreshPlaylist s =
     Inr (s\<lparr>executed := executed s @ [''musictime.refreshPlaylist'']\<rparr>)"



text \<open>One list extends another by at most one element at its end.\<close>

definition at_most_one_more :: "'a list \<Rightarrow> 'a list \<Rightarrow> bool" where
  "at_most_one_more xs ys = (take (length xs) ys = xs \<and> length ys \<le> length xs + 1)"

section \<open>Properties of the user status fetch\<close>

lemma auth_loop_found:
  "fst (auth_loop as found s) = (found \<or> list_ex spotify_auth as)"
  by (induction as arbitrary: found s) (auto simp: spotify_auth_def)

text \<open>
  What \<open>getMusicTimeUserStatus\<close> returns or raises, as a decision tree over the stored
  tokens and the response.
\<close>

lemma status_result:
  "fst (getMusicTimeUserStatus isResponseOk resp s) =
     (if token_available s \<and> isResponseOk resp then
        (case resp_data resp of
           None \<Rightarrow> Inr \<lparr>loggedOn = False, state = ''UNKNOWN''\<rparr>
         | Some d \<Rightarrow>
             if truthy (sd_state d) then
               if sd_state d = Some ''OK'' then
                 (case sd_user d of
                    None \<Rightarrow> Inl TypeError
                  | Some u \<Rightarrow>
                      Inr \<lparr>loggedOn = (case auths u of None \<Rightarrow> False
                                         | Some as \<Rightarrow> list_ex spotify_auth as),
                           state = ''OK''\<rparr>)
               else Inr \<lparr>loggedOn = False, state = the (sd_state d)\<rparr>
             else Inr \<lparr>loggedOn = False, state = ''UNKNOWN''\<rparr>)
      else Inr \<lparr>loggedOn = False, state = ''UNKNOWN''\<rparr>)"
proof (cases "token_available s \<and> isResponseOk resp")
  case False
  then show ?thesis
    by (cases "isResponseOk resp")
       (simp_all add: getMusicTimeUserStatus_def token_available_def Let_def)
next
  case True
  show ?thesis
  proof (cases "resp_data resp")
    case None
    with True show ?thesis
      by (simp add: getMusicTimeUserStatus_def token_available_def Let_def)
  next
    case (Some d)
    show ?thesis
    proof (cases "sd_state d")
      case None
      with True Some show ?thesis
        by (simp add: getMusicTimeUserStatus_def token_available_def Let_def truthy_def)
    next
      case st: (Some st)
      show ?thesis
      proof (cases "st = ''OK''")
        case False
        with True Some st show ?thesis
          by (simp add: getMusicTimeUserStatus_def token_available_def Let_def truthy_def)
      next
        case ok: True
        show ?thesis
        proof (cases "sd_user d")
          case None
          with True Some st ok show ?thesis
            by (simp add: getMusicTimeUserStatus_def token_available_def Let_def truthy_def)
        next
          case u: (Some u)
          show ?thesis
          proof (cases "auths u")
            case None
            with True Some st ok u show ?thesis
              by (simp add: getMusicTimeUserStatus_def token_available_def Let_def truthy_def)
          next
            case as: (Some as)
            have "fst (auth_loop as False t) = list_ex spotify_auth as" for t
              by (simp add: auth_loop_found)
            with True Some st ok u as show ?thesis
              by (cases as)
                 (simp_all add: getMusicTimeUserStatus_def token_available_def Let_def
                    truthy_def case_prod_beta del: auth_loop.simps)
          qed
        qed
      qed
    qed
  qed
qed

text \<open>
  Claim C3.  With a token available and a successful response carrying a body:
  a body whose state is \<open>OK\<close> and whose user has the single authorization
  \<open>{type: "spotify", access_token: "x"}\<close> yields \<open>{loggedOn: true, state: "OK"}\<close>;
  a body whose state is \<open>ANONYMOUS\<close> yields \<open>{loggedOn: false, state: "ANONYMOUS"}\<close>;
  a body with no state field yields \<open>{loggedOn: false, state: "UNKNOWN"}\<close>.
\<close>

theorem getMusicTimeUserStatus_classification:
  assumes "token_available s" and "isResponseOk resp" and "resp_data resp = Some d"
  shows
    "(sd_state d = Some ''OK'' \<and>
      sd_user d =
        Some \<lparr>auths = Some [\<lparr>auth_type = Some ''spotify'', access_token = Some ''x''\<rparr>]\<rparr>
        \<longrightarrow> fst (getMusicTimeUserStatus isResponseOk resp s) =
              Inr \<lparr>loggedOn = True, state = ''OK''\<rparr>) \<and>
     (sd_state d = Some ''ANONYMOUS''
        \<longrightarrow> fst (getMusicTimeUserStatus isResponseOk resp s) =
              Inr \<lparr>loggedOn = False, state = ''ANONYMOUS''\<rparr>) \<and>
     (sd_state d = None
        \<longrightarrow> fst (getMusicTimeUserStatus isResponseOk resp s) =
              Inr \<lparr>loggedOn = False, state = ''UNKNOWN''\<rparr>)"
  using assms by (simp add: status_result truthy_def spotify_auth_def)

theorem getMusicTimeUserStatus_classification_witness:
  "fst (getMusicTimeUserStatus (\<lambda>r. resp_status r = 200)
          \<lparr>resp_status = 200, resp_data = Some
             \<lparr>sd_state = Some ''OK'', sd_email = None, sd_jwt = None, sd_user = Some
                \<lparr>auths = Some [\<lparr>auth_type = Some ''spotify'', access_token = Some ''x''\<rparr>]\<rparr>\<rparr>\<rparr>
          \<lparr>items = [''jwt'' \<mapsto> ''t''], cache = Map.empty, requests = [], mgr_calls = []\<rparr>)
     = Inr \<lparr>loggedOn = True, state = ''OK''\<rparr> \<and>
   fst (getMusicTimeUserStatus (\<lambda>r. resp_status r = 200)
          \<lparr>resp_status = 200, resp_data = Some
             \<lparr>sd_state = Some ''ANONYMOUS'', sd_email = None, sd_jwt = None, sd_user = None\<rparr>\<rparr>
          \<lparr>items = [''jwt'' \<mapsto> ''t''], cache = Map.empty, requests = [], mgr_calls = []\<rparr>)
     = Inr \<lparr>loggedOn = False, state = ''ANONYMOUS''\<rparr> \<and>
   fst (getMusicTimeUserStatus (\<lambda>r. resp_status r = 200)
          \<lparr>resp_status = 200, resp_data = Some
             \<lparr>sd_state = None, sd_email = None, sd_jwt = None, sd_user = None\<rparr>\<rparr>
          \<lparr>items = [''jwt'' \<mapsto> ''t''], cache = Map.empty, requests = [], mgr_calls = []\<rparr>)
     = Inr \<lparr>loggedOn = False, state = ''UNKNOWN''\<rparr>"
proof -
  let ?s = "\<lparr>items = [''jwt'' \<mapsto> ''t''], cache = Map.empty, requests = [], mgr_calls = []\<rparr>"
  let ?ok = "\<lambda>r. resp_status r = (200::int)"
  have tok: "token_available ?s"
    by (simp add: token_available_def getItem_def truthy_def)
  show ?thesis
    using getMusicTimeUserStatus_classification
            [where s = ?s and isResponseOk = ?ok, OF tok,
             of "\<lparr>resp_status = 200, resp_data = Some d\<rparr>" d for d]
    by simp
qed

text \<open>
  Claim C4, as amended.  When the function returns, \<open>loggedOn\<close> is true exactly when a
  token was available, the response was successful, its state is \<open>OK\<close>, and one of the
  user's authorization records has type spotify and a non-empty access token.  For every
  other state \<open>loggedOn\<close> is false whatever the records are: the records are only read
  under the guard \<open>state === "OK"\<close>.
\<close>

theorem loggedOn_iff_ok_state_and_spotify_auth:
  assumes "fst (getMusicTimeUserStatus isResponseOk resp s) = Inr r"
  shows "loggedOn r \<longleftrightarrow>
     token_available s \<and> isResponseOk resp \<and>
     (\<exists>d u as. resp_data resp = Some d \<and> sd_state d = Some ''OK'' \<and> sd_user d = Some u \<and>
        auths u = Some as \<and> list_ex spotify_auth as)"
  using assms by (auto simp: status_result truthy_def split: option.splits if_splits)

theorem loggedOn_iff_ok_state_and_spotify_auth_witness:
  "loggedOn \<lparr>loggedOn = True, state = ''OK''\<rparr> \<longleftrightarrow>
     token_available
       \<lparr>items = [''jwt'' \<mapsto> ''t''], cache = Map.empty, requests = [], mgr_calls = []\<rparr> \<and>
     resp_status \<lparr>resp_status = 200, resp_data = Some
             \<lparr>sd_state = Some ''OK'', sd_email = None, sd_jwt = None, sd_user = Some
                \<lparr>auths = Some [\<lparr>auth_type = Some ''spotify'', access_token = Some ''x''\<rparr>]\<rparr>\<rparr>\<rparr>
       = 200 \<and>
     (\<exists>d u as. resp_data \<lparr>resp_status = 200, resp_data = Some
             \<lparr>sd_state = Some ''OK'', sd_email = None, sd_jwt = None, sd_user = Some
                \<lparr>auths = Some [\<lparr>auth_type = Some ''spotify'', access_token = Some ''x''\<rparr>]\<rparr>\<rparr>\<rparr>
           = Some d \<and> sd_state d = Some ''OK'' \<and> sd_user d = Some u \<and>
        auths u = Some as \<and> list_ex spotify_auth as)"
proof -
  have "fst (getMusicTimeUserStatus (\<lambda>r. resp_status r = 200)
          \<lparr>resp_status = 200, resp_data = Some
             \<lparr>sd_state = Some ''OK'', sd_email = None, sd_jwt = None, sd_user = Some
                \<lparr>auths = Some [\<lparr>auth_type = Some ''spotify'', access_token = Some ''x''\<rparr>]\<rparr>\<rparr>\<rparr>
          \<lparr>items = [''jwt'' \<mapsto> ''t''], cache = Map.empty, requests = [], mgr_calls = []\<rparr>)
     = Inr \<lparr>loggedOn = True, state = ''OK''\<rparr>"
    by (simp add: getMusicTimeUserStatus_def getItem_def truthy_def Let_def)
  from loggedOn_iff_ok_state_and_spotify_auth [OF this] show ?thesis .
qed

text \<open>
  Claim C4 as stated fails.  A successful response of state \<open>ANONYMOUS\<close> that carries a
  spotify authorization with an access token is reported with \<open>loggedOn = false\<close>; and
  under state \<open>OK\<close> a record of type spotify without an access token is not counted.
\<close>

theorem loggedOn_independent_of_state_counterexample:
  "list_ex spotify_auth [\<lparr>auth_type = Some ''spotify'', access_token = Some ''x''\<rparr>] \<and>
   fst (getMusicTimeUserStatus (\<lambda>r. resp_status r = 200)
          \<lparr>resp_status = 200, resp_data = Some
             \<lparr>sd_state = Some ''ANONYMOUS'', sd_email = None, sd_jwt = None, sd_user = Some
                \<lparr>auths = Some [\<lparr>auth_type = Some ''spotify'', access_token = Some ''x''\<rparr>]\<rparr>\<rparr>\<rparr>
          \<lparr>items = [''jwt'' \<mapsto> ''t''], cache = Map.empty, requests = [], mgr_calls = []\<rparr>)
     = Inr \<lparr>loggedOn = False, state = ''ANONYMOUS''\<rparr> \<and>
   fst (getMusicTimeUserStatus (\<lambda>r. resp_status r = 200)
          \<lparr>resp_status = 200, resp_data = Some
             \<lparr>sd_state = Some ''OK'', sd_email = None, sd_jwt = None, sd_user = Some
                \<lparr>auths = Some [\<lparr>auth_type = Some ''spotify'', access_token = None\<rparr>]\<rparr>\<rparr>\<rparr>
          \<lparr>items = [''jwt'' \<mapsto> ''t''], cache = Map.empty, requests = [], mgr_calls = []\<rparr>)
     = Inr \<lparr>loggedOn = False, state = ''OK''\<rparr>"
  by (simp add: getMusicTimeUserStatus_def getItem_def truthy_def spotify_auth_def Let_def)

text \<open>
  Claim C10.  The function raises (a \<open>TypeError\<close>, from reading \<open>user.auths\<close>) exactly
  when a token is available and the successful response has state \<open>OK\<close> and no user
  record; in every other case it returns a \<open>{loggedOn, state}\<close> record.  So it is free of
  raised errors only as long as every \<open>OK\<close> response carries a user record.
\<close>

theorem getMusicTimeUserStatus_raises_iff:
  "fst (getMusicTimeUserStatus isResponseOk resp s) = Inl TypeError \<longleftrightarrow>
     token_available s \<and> isResponseOk resp \<and>
     (\<exists>d. resp_data resp = Some d \<and> sd_state d = Some ''OK'' \<and> sd_user d = None)"
  by (auto simp: status_result truthy_def split: option.splits)

theorem getMusicTimeUserStatus_raises_witness:
  "fst (getMusicTimeUserStatus (\<lambda>r. resp_status r = 200)
          \<lparr>resp_status = 200, resp_data = Some
             \<lparr>sd_state = Some ''OK'', sd_email = None, sd_jwt = None, sd_user = None\<rparr>\<rparr>
          \<lparr>items = [''jwt'' \<mapsto> ''t''], cache = Map.empty, requests = [], mgr_calls = []\<rparr>)
     = Inl TypeError"
  by (simp add: getMusicTimeUserStatus_raises_iff token_available_def getItem_def truthy_def)

section \<open>Properties of the liked-songs seeding\<close>

lemma replicate_numeral_Cons:
  "replicate (numeral n) x = x # replicate (pred_numeral n) x"
  by (simp add: numeral_eq_Suc)

text \<open>
  Claim C2 does not hold of the code.  For 65 liked tracks the calls to
  \<open>/music/session/seed\<close> carry 31, 30 and 4 records, not 30, 30 and 5: the batch is sent
  after the push at index 30, when it already holds the 31 sessions of indices 0 to 30.
\<close>

theorem seedLikedSongSessions_65_tracks:
  "map (\<lambda>c. length (put_tracks c))
     (seedLikedSongSessions fileMetrics (Some (replicate 65 t)) s) = [31, 30, 4]"
  by (simp add: seedLikedSongSessions_def replicate_numeral_Cons batch_size_def
        sendBatchedLikedSongSessions_def Let_def)

section \<open>Properties of the server availability check\<close>

lemma serverIsAvailable_cached_true:
  "serverIsAvailable isResponseOk ping (cacheSet ''serverAvailable'' True s) =
     (Some True, cacheSet ''serverAvailable'' True s)"
  by (simp add: serverIsAvailable_def cacheGet_def cacheSet_def or_null_def Let_def)

text \<open>
  Claim C9 does not hold of the code when the stored value is \<open>false\<close>.  Starting from an
  empty cache, a first call whose ping is rejected returns \<open>false\<close> and stores it; a second
  call then pings again although the cache holds a value, and returns \<open>true\<close> once the
  server answers: two remote calls and two different results.
\<close>

theorem serverIsAvailable_cached_false_pings_again:
  "(let s0 = \<lparr>items = Map.empty, cache = Map.empty, requests = [], mgr_calls = []\<rparr>;
        isResponseOk = (\<lambda>r. resp_status r = 200);
        (r1, s1) = serverIsAvailable isResponseOk None s0;
        (r2, s2) = serverIsAvailable isResponseOk
                     (Some \<lparr>resp_status = 200, resp_data = None\<rparr>) s1
    in (r1, cacheGet ''serverAvailable'' s1, r2, requests s2)) =
   (Some False, Some False, Some True, [Get ''/ping'' None None, Get ''/ping'' None None])"
  by (simp add: serverIsAvailable_def cacheGet_def cacheSet_def or_null_def Let_def)

section \<open>Properties of the connection status polling\<close>

lemma filter_remove_nth_add:
  "i < length xs \<Longrightarrow>
   length (filter P xs) = length (filter P (remove_nth i xs)) + (if P (xs ! i) then 1 else 0)"
proof (induction xs arbitrary: i)
  case Nil
  then show ?case by simp
next
  case (Cons x xs)
  show ?case
  proof (cases i)
    case 0
    then show ?thesis by (simp add: remove_nth_def)
  next
    case (Suc j)
    with Cons.prems have "j < length xs" by simp
    from Cons.IH[OF this] Suc show ?thesis by (simp add: remove_nth_def)
  qed
qed

lemma filter_remove_nth:
  "i < length xs \<Longrightarrow>
   length (filter P (remove_nth i xs)) = length (filter P xs) - (if P (xs ! i) then 1 else 0)"
  using filter_remove_nth_add[of i xs P] by simp

lemma guards_count_refetch_slack: "guards_count s \<Longrightarrow> guards_count (refetchSlackConnectStatusLazily n s)"
  by (auto simp: guards_count_def outstanding_def refetchSlackConnectStatusLazily_def
        split: if_splits)

lemma guards_count_refetch_spotify: "guards_count s \<Longrightarrow> guards_count (refetchSpotifyConnectStatusLazily n s)"
  by (auto simp: guards_count_def outstanding_def refetchSpotifyConnectStatusLazily_def
        split: if_splits)

lemma guards_count_callback:
  assumes "guards_count s" and "i < length (timers s)"
  shows "guards_count (timer_callback (snd (timers s ! i)) (s\<lparr>timers := remove_nth i (timers s)\<rparr>))"
proof -
  obtain d a where t: "timers s ! i = (d, a)" by (cases "timers s ! i")
  have mem: "(d, a) \<in> set (timers s)" using assms(2) t by (metis nth_mem)
  show ?thesis
  proof (cases a)
    case (SlackConnectStatus n)
    with mem have "(d, a) \<in> set (filter is_slack (timers s))" by simp
    then have "0 < length (filter is_slack (timers s))"
      by (rule length_pos_if_in_set)
    with assms t SlackConnectStatus show ?thesis
      by (auto simp: guards_count_def outstanding_def filter_remove_nth split: if_splits)
  next
    case (SpotifyConnectStatus n)
    with mem have "(d, a) \<in> set (filter is_spotify (timers s))" by simp
    then have "0 < length (filter is_spotify (timers s))"
      by (rule length_pos_if_in_set)
    with assms t SpotifyConnectStatus show ?thesis
      by (auto simp: guards_count_def outstanding_def filter_remove_nth split: if_splits)
  next
    case HardRefreshPlaylist
    with assms t show ?thesis
      by (auto simp: guards_count_def outstanding_def filter_remove_nth)
  qed
qed

lemma guards_count_resume:
  assumes "guards_count s"
  shows "guards_count (resume_handler h outcome (s\<lparr>awaiting := ws\<rparr>))"
proof -
  have g: "guards_count (s\<lparr>awaiting := ws\<rparr>)"
    using assms by (simp add: guards_count_def outstanding_def)
  have m: "guards_count (t\<lparr>messages := ms\<rparr>)" if "guards_count t" for t ms
    using that by (simp add: guards_count_def outstanding_def)
  have r: "guards_count (t\<lparr>messages := ms, timers := timers t @ [(2000, HardRefreshPlaylist)]\<rparr>)"
    if "guards_count t" for t ms
    using that by (simp add: guards_count_def outstanding_def)
  show ?thesis
  proof (cases h)
    case (AwaitSlackOauth n)
    then show ?thesis
      using g guards_count_refetch_slack[OF g] m[OF g]
      by (cases outcome) (simp_all add: slackConnectStatusHandler_def)
  next
    case (AwaitUserStatus n)
    then show ?thesis
      using g guards_count_refetch_spotify[OF g] r[OF g]
      by (cases outcome) (simp_all add: spotifyConnectStatusHandler_def)
  qed
qed

lemma guards_count_step: "guards_count s \<Longrightarrow> guards_count (poll_step e s)"
  by (cases e)
     (simp_all add: guards_count_refetch_slack guards_count_refetch_spotify
        guards_count_callback guards_count_resume)

lemma guards_count_run: "guards_count s \<Longrightarrow> guards_count (run_events es s)"
  by (induction es arbitrary: s) (simp_all add: guards_count_step)

lemma guards_count_init: "guards_count poller_init"
  by (simp add: guards_count_def outstanding_def poller_init_def)

text \<open>
  Claim C8.  In every state the module can reach, each of the two conditions has at most
  one timer outstanding, and a call of its refetch entry point while one is outstanding
  changes nothing.
\<close>

theorem one_outstanding_timer_per_condition:
  "outstanding is_slack (run_events es poller_init) \<le> 1 \<and>
   outstanding is_spotify (run_events es poller_init) \<le> 1 \<and>
   (0 < outstanding is_slack (run_events es poller_init) \<longrightarrow>
      refetchSlackConnectStatusLazily n (run_events es poller_init) =
        run_events es poller_init) \<and>
   (0 < outstanding is_spotify (run_events es poller_init) \<longrightarrow>
      refetchSpotifyConnectStatusLazily m (run_events es poller_init) =
        run_events es poller_init)"
  using guards_count_run[OF guards_count_init, of es]
  by (auto simp: guards_count_def refetchSlackConnectStatusLazily_def
        refetchSpotifyConnectStatusLazily_def split: if_splits)

text \<open>
  After the two loops were started, the slack timer has fired and its handler is
  suspended, a second start of the slack loop has slipped in, and the handler has
  resumed unmet: one timer of each condition is outstanding, and further calls change
  nothing.
\<close>

theorem one_outstanding_timer_per_condition_witness:
  "run_events [CallRefetchSpotify 40, CallRefetchSlack 40, TimerFires 1, CallRefetchSlack 40,
               HandlerResumes 0 Unmet] poller_init =
     \<lparr>slackFetchTimeout = True, spotifyFetchTimeout = True,
       timers = [(10000, SpotifyConnectStatus 40), (10000, SlackConnectStatus 40)],
       awaiting = [], messages = [], commands = []\<rparr> \<and>
   refetchSlackConnectStatusLazily 7
     \<lparr>slackFetchTimeout = True, spotifyFetchTimeout = True,
       timers = [(10000, SpotifyConnectStatus 40), (10000, SlackConnectStatus 40)],
       awaiting = [], messages = [], commands = []\<rparr> =
     \<lparr>slackFetchTimeout = True, spotifyFetchTimeout = True,
       timers = [(10000, SpotifyConnectStatus 40), (10000, SlackConnectStatus 40)],
       awaiting = [], messages = [], commands = []\<rparr> \<and>
   refetchSpotifyConnectStatusLazily 7
     \<lparr>slackFetchTimeout = True, spotifyFetchTimeout = True,
       timers = [(10000, SpotifyConnectStatus 40), (10000, SlackConnectStatus 40)],
       awaiting = [], messages = [], commands = []\<rparr> =
     \<lparr>slackFetchTimeout = True, spotifyFetchTimeout = True,
       timers = [(10000, SpotifyConnectStatus 40), (10000, SlackConnectStatus 40)],
       awaiting = [], messages = [], commands = []\<rparr>"
proof -
  let ?es = "[CallRefetchSpotify 40, CallRefetchSlack 40, TimerFires 1, CallRefetchSlack 40,
              HandlerResumes 0 Unmet]"
  let ?s = "\<lparr>slackFetchTimeout = True, spotifyFetchTimeout = True,
       timers = [(10000, SpotifyConnectStatus 40), (10000, SlackConnectStatus 40)],
       awaiting = [], messages = [], commands = []\<rparr>"
  have run: "run_events ?es poller_init = ?s"
    by (simp add: poller_init_def refetchSlackConnectStatusLazily_def
          refetchSpotifyConnectStatusLazily_def slackConnectStatusHandler_def remove_nth_def)
  have o: "0 < outstanding is_slack ?s" "0 < outstanding is_spotify ?s"
    by (simp_all add: outstanding_def)
  from one_outstanding_timer_per_condition[of ?es 7 7] o run show ?thesis by simp
qed








lemma poll_run_bounded:
  "length (fst (poll_run outcome fired s)) \<le> length fired + sum_list (map weight (timers s))"
proof (induction outcome fired s rule: poll_run.induct)
  case (1 outcome fired s)
  show ?case
  proof (cases "List.extract is_check (timers s)")
    case None
    then show ?thesis by (subst poll_run.simps) simp
  next
    case (Some r)
    obtain before d a after where r: "r = (before, (d, a), after)"
      by (cases r) auto
    from Some r have ts: "timers s = before @ (d, a) # after" and chk: "is_check (d, a)"
      by (auto simp: extract_Some_iff)
    from "1.IH"[OF Some r[symmetric] refl]
    have "length (fst (poll_run outcome (fired @ [a])
             (fire_and_check a (outcome (length fired)) (s\<lparr>timers := before @ after\<rparr>))))
          \<le> length (fired @ [a]) +
             sum_list (map weight (timers (fire_and_check a (outcome (length fired))
                (s\<lparr>timers := before @ after\<rparr>))))"
      by simp
    moreover have "poll_run outcome fired s = poll_run outcome (fired @ [a])
             (fire_and_check a (outcome (length fired)) (s\<lparr>timers := before @ after\<rparr>))"
      using Some r by (subst poll_run.simps) simp
    moreover from timers_fire_and_check[OF chk, of "outcome (length fired)" "s\<lparr>timers := before @ after\<rparr>"]
    have "sum_list (map weight (timers (fire_and_check a (outcome (length fired))
                (s\<lparr>timers := before @ after\<rparr>)))) < sum_list (map weight (timers s))"
      by (simp add: ts)
    ultimately show ?thesis by simp
  qed
qed




section \<open>Properties of populating the spotify playlists\<close>

text \<open>
  Claim C1, as amended.  When the playlist fetch resolves to an error object of status
  400 or more, the call returns without raising, and the state it returns is that of
  running, in this order: \<open>reconcilePlaylists\<close>, the clearing of the two raw orderings,
  \<open>populateSpotifyDevices\<close>, \<open>fetchSavedPlaylists\<close>, the setting of the timer that retries
  \<open>populateSpotifyPlaylists\<close> 3000 ms ahead, \<open>populateGeneratedPlaylists\<close> and
  \<open>populatePlayerContext\<close>, which stores the fetched player context.  Nothing of the
  failed response is written, and the result is the same for every failing status.  The
  raw playlist orderings are not kept: provided \<open>fetchSavedPlaylists\<close> and
  \<open>populateGeneratedPlaylists\<close> do not write them and \<open>populateGeneratedPlaylists\<close> does
  not change the timers, both orderings are empty after the call and the retry is the
  last timer set.
\<close>

theorem populateSpotifyPlaylists_error_status:
  assumes "400 \<le> st"
      and "\<And>t. rawPlaylists (fetchSavedPlaylists t) = rawPlaylists t"
      and "\<And>t. origRawPlaylistOrder (fetchSavedPlaylists t) = origRawPlaylistOrder t"
      and "\<And>t. rawPlaylists (populateGeneratedPlaylists t) = rawPlaylists t"
      and "\<And>t. origRawPlaylistOrder (populateGeneratedPlaylists t) = origRawPlaylistOrder t"
      and "\<And>t. pending (populateGeneratedPlaylists t) = pending t"
  shows "\<exists>s'. populateSpotifyPlaylists reconcilePlaylists fetchSavedPlaylists
                 populateGeneratedPlaylists devices (Status st) playerContext s = Inr s' \<and>
              s' = populatePlayerContext playerContext
                     (populateGeneratedPlaylists
                        ((fetchSavedPlaylists
                            (populateSpotifyDevices devices
                               ((reconcilePlaylists s)
                                  \<lparr>origRawPlaylistOrder := [], rawPlaylists := []\<rparr>)))
                         \<lparr>pending :=
                            pending (fetchSavedPlaylists
                                       (populateSpotifyDevices devices
                                          ((reconcilePlaylists s)
                                             \<lparr>origRawPlaylistOrder := [],
                                               rawPlaylists := []\<rparr>))) @
                            [(3000, RetryPopulateSpotifyPlaylists)]\<rparr>)) \<and>
              rawPlaylists s' = [] \<and> origRawPlaylistOrder s' = [] \<and>
              last (pending s') = (3000, RetryPopulateSpotifyPlaylists) \<and>
              spotifyContext s' = playerContext \<and>
              populateSpotifyPlaylists reconcilePlaylists fetchSavedPlaylists
                 populateGeneratedPlaylists devices (Status 400) playerContext s = Inr s'"
  using assms
  by (simp add: populateSpotifyPlaylists_def Let_def populatePlayerContext_def
        populateSpotifyDevices_def)

text \<open>
  At a concrete call: the device fetch is rate limited (status 429), so the device step
  leaves the device list as it was; the playlist fetch fails with 503.
\<close>

theorem populateSpotifyPlaylists_error_status_witness:
  "\<exists>s'. populateSpotifyPlaylists (\<lambda>s. s) (\<lambda>s. s) (\<lambda>s. s) (Status 429) (Status 503) ''ctx2''
            \<lparr>origRawPlaylistOrder = [''A'', ''B''], rawPlaylists = [''A'', ''B''],
              currentDevices = Items [''old''], spotifyContext = ''ctx1'', other = (),
              pending = [], syncs = []\<rparr> = Inr s' \<and>
         s' = \<lparr>origRawPlaylistOrder = [], rawPlaylists = [],
                currentDevices = Items [''old''], spotifyContext = ''ctx2'', other = (),
                pending = [(3000, RetryPopulateSpotifyPlaylists)], syncs = [False]\<rparr> \<and>
         populateSpotifyPlaylists (\<lambda>s. s) (\<lambda>s. s) (\<lambda>s. s) (Status 429) (Status 400) ''ctx2''
            \<lparr>origRawPlaylistOrder = [''A'', ''B''], rawPlaylists = [''A'', ''B''],
              currentDevices = Items [''old''], spotifyContext = ''ctx1'', other = (),
              pending = [], syncs = []\<rparr> = Inr s'"
proof -
  have st: "(400::int) \<le> 503" by simp
  from populateSpotifyPlaylists_error_status [OF st, of "\<lambda>s. s" "\<lambda>s. s" "\<lambda>s. s" "Status 429"
      "''ctx2''" "\<lparr>origRawPlaylistOrder = [''A'', ''B''], rawPlaylists = [''A'', ''B''],
              currentDevices = Items [''old''], spotifyContext = ''ctx1'', other = (),
              pending = [], syncs = []\<rparr>"]
  show ?thesis
    by (simp add: populatePlayerContext_def populateSpotifyDevices_def)
qed

text \<open>
  Claim C1 as stated fails.  With the raw orderings \<open>[A, B]\<close> before the call and a fetch
  that returns status 503, the orderings are empty after the call, even when the data
  manager's own steps leave the snapshot alone; the device list and the player context
  have been rewritten as well.  The retry is scheduled.
\<close>

theorem populateSpotifyPlaylists_error_clears_raw_orderings:
  "populateSpotifyPlaylists (\<lambda>s. s) (\<lambda>s. s) (\<lambda>s. s) (Items [''device'']) (Status 503) ''ctx2''
     \<lparr>origRawPlaylistOrder = [''A'', ''B''], rawPlaylists = [''A'', ''B''],
       currentDevices = Items [], spotifyContext = ''ctx1'', other = (),
       pending = [], syncs = []\<rparr>
   = Inr \<lparr>origRawPlaylistOrder = [], rawPlaylists = [],
       currentDevices = Items [''device''], spotifyContext = ''ctx2'', other = (),
       pending = [(1000, GatherMusicInfoRequest), (3000, RetryPopulateSpotifyPlaylists)],
       syncs = [False]\<rparr>"
  by (simp add: populateSpotifyPlaylists_def Let_def populatePlayerContext_def
        populateSpotifyDevices_def)

section \<open>Properties of playing the selected item\<close>




lemma scheduled_detached_desktop [simp]:
  "scheduled (detached (playSpotifyDesktopPlaylistTrack l) s) = scheduled s"
  by (simp add: detached_def playSpotifyDesktopPlaylistTrack_def issue_def Let_def
        split: option.splits)

lemma scheduled_detached_web [simp]:
  "scheduled (detached (launchAndPlaySpotifyWebPlaylistTrack l b) s) = scheduled s"
  by (simp add: detached_def launchAndPlaySpotifyWebPlaylistTrack_def issue_def Let_def
        split: option.splits)

lemma scheduled_issue [simp]: "scheduled (issue c s) = scheduled s"
  by (simp add: issue_def)



lemma at_most_one_more_refl [simp]: "at_most_one_more xs xs"
  by (simp add: at_most_one_more_def)

lemma at_most_one_more_snoc [simp]: "at_most_one_more xs (xs @ [c])"
  by (simp add: at_most_one_more_def)




lemma backend_refresh [simp]: "backend (refresh_if_launching info s) = backend s"
  by (simp add: refresh_if_launching_def setTimeout_def)

lemma backend_setTimeout [simp]: "backend (setTimeout f ms s) = backend s"
  by (simp add: setTimeout_def)

lemma backend_issue [simp]: "backend (issue c s) = backend s @ [c]"
  by (simp add: issue_def)





end
